theory Spec2Isabelle
  imports Main
begin

section \<open>sailboat: a command-line web browser\<close>

text \<open>
  A shallow embedding of \<^verbatim>\<open>sailboat.py\<close>: the markup extractor
  (\<^verbatim>\<open>Browser.parse\<close>, \<^verbatim>\<open>Browser._parse\<close>), the query
  classification (\<^verbatim>\<open>Browser.search\<close>) and the scroll state of the viewport
  (\<^verbatim>\<open>Display.draw\<close>, \<^verbatim>\<open>Display._scroll\<close>).

  Naming: a Python name with a leading underscore, \<^verbatim>\<open>_parse\<close>, is written with
  a trailing prime, \<open>parse'\<close>, since an Isabelle name starts with a letter.
  A Python \<^verbatim>\<open>str\<close> is a \<open>string\<close>, each \<open>char\<close> read as one code point
  below 256. An exception is the left summand of the result.
\<close>

subsection \<open>Exceptions\<close>

datatype error = AttributeError | IndexError | TypeError | OSError | UncaughtError

subsection \<open>Python strings\<close>

text \<open>
  \<^verbatim>\<open>str.isspace()\<close>: true when the string has at least one character and all of
  them are whitespace; the empty string is not a space. The whitespace code points below
  256 are 9 to 13, 28 to 32, 133 and 160.
\<close>

definition whitespace :: "char list" where
  "whitespace = [CHR 0x09, CHR 0x0A, CHR 0x0B, CHR 0x0C, CHR 0x0D,
                 CHR 0x1C, CHR 0x1D, CHR 0x1E, CHR 0x1F, CHR 0x20, CHR 0x85, CHR 0xA0]"

definition isspace :: "string \<Rightarrow> bool" where
  "isspace s = (s \<noteq> [] \<and> list_all (\<lambda>c. List.member whitespace c) s)"

text \<open>\<^verbatim>\<open>str.strip()\<close> removes the whitespace at both ends.\<close>

definition strip :: "string \<Rightarrow> string" where
  "strip s = rev (dropWhile (\<lambda>c. List.member whitespace c)
                (rev (dropWhile (\<lambda>c. List.member whitespace c) s)))"

text \<open>\<^verbatim>\<open>str.split(sep)\<close> for a separator of one character: never an empty list.\<close>

fun split :: "char \<Rightarrow> string \<Rightarrow> string list" where
  "split sep [] = [[]]"
| "split sep (c # cs) =
     (if c = sep then [] # split sep cs
      else (case split sep cs of
              [] \<Rightarrow> [[c]]
            | l # ls \<Rightarrow> (c # l) # ls))"

text \<open>\<^verbatim>\<open>str.startswith\<close>, \<^verbatim>\<open>str.endswith\<close>, \<^verbatim>\<open>sub in s\<close>
  and \<^verbatim>\<open>str.lower()\<close> (on code points below 256: the letters A to Z, and the
  Latin-1 capitals 192 to 222 but 215).\<close>

fun startswith :: "string \<Rightarrow> string \<Rightarrow> bool" where
  "startswith s [] = True"
| "startswith [] (p # ps) = False"
| "startswith (c # cs) (p # ps) = (c = p \<and> startswith cs ps)"

definition endswith :: "string \<Rightarrow> string \<Rightarrow> bool" where
  "endswith s suffix = startswith (rev s) (rev suffix)"

fun contains :: "string \<Rightarrow> string \<Rightarrow> bool" where
  "contains [] sub = (sub = [])"
| "contains (c # cs) sub = (startswith (c # cs) sub \<or> contains cs sub)"

definition lower_char :: "char \<Rightarrow> char" where
  "lower_char c =
     (let n = (of_char c :: nat) in
      if (65 \<le> n \<and> n \<le> 90) \<or> (192 \<le> n \<and> n \<le> 222 \<and> n \<noteq> 215)
      then char_of (n + 32) else c)"

definition lower :: "string \<Rightarrow> string" where
  "lower s = map lower_char s"

subsection \<open>The fetched page and the display elements\<close>

record WebsiteContent =
  html :: string
  success :: bool
  errmsg :: string

text \<open>
  The classes \<^verbatim>\<open>HTMLMarkupLink(href, text, nestedObjects)\<close>,
  \<^verbatim>\<open>HTMLMarkupImage(src, alt)\<close>, \<^verbatim>\<open>HTMLMarkupText(text, emphasized, underlined)\<close>,
  \<^verbatim>\<open>HTMLMarkupError(errmsg)\<close> and \<^verbatim>\<open>HTMLMarkupTitle(title)\<close>. A field
  that can hold Python's \<^verbatim>\<open>None\<close> is an option.
\<close>

datatype HTMLMarkup =
    HTMLMarkupLink "string option" "string option" "HTMLMarkup list option"
  | HTMLMarkupImage "string option" "string option"
  | HTMLMarkupText string bool bool
  | HTMLMarkupError string
  | HTMLMarkupTitle "string option"

text \<open>The class attribute \<^verbatim>\<open>name\<close> of each element class.\<close>

fun name :: "HTMLMarkup \<Rightarrow> string" where
  "name (HTMLMarkupLink h t n) = ''link''"
| "name (HTMLMarkupImage s a) = ''image''"
| "name (HTMLMarkupText t e u) = ''text''"
| "name (HTMLMarkupError m) = ''error''"
| "name (HTMLMarkupTitle t) = ''title''"

subsection \<open>The document tree of the parse library\<close>

text \<open>
  The tree BeautifulSoup hands to the extractor. A string node carries its class: the
  source tells \<^verbatim>\<open>Comment\<close> apart by \<^verbatim>\<open>isinstance\<close>, and a plain
  \<^verbatim>\<open>NavigableString\<close> from its subclasses by \<^verbatim>\<open>type(child) ==\<close>.
  \<open>OtherString\<close> stands for every other subclass (Doctype, Declaration,
  ProcessingInstruction). A tag carries its name, its attributes and its children in
  document order; the document itself is the tag named \<^verbatim>\<open>[document]\<close>.
\<close>

datatype string_class = NavigableString | Comment | CData | OtherString

datatype PageElement =
    Str string_class string
  | Tag string "(string \<times> string) list" "PageElement list"

text \<open>\<^verbatim>\<open>element.get(key)\<close>: the attribute, or \<^verbatim>\<open>None\<close>.\<close>

definition get :: "(string \<times> string) list \<Rightarrow> string \<Rightarrow> string option" where
  "get attrs key = map_of attrs key"

text \<open>
  \<^verbatim>\<open>tag.find(name)\<close>, which \<^verbatim>\<open>soup.body\<close>, \<^verbatim>\<open>soup.html\<close>,
  \<^verbatim>\<open>soup.head\<close> and \<^verbatim>\<open>head.title\<close> stand for: the first descendant tag
  of that name in document order, or \<^verbatim>\<open>None\<close>.
\<close>

fun find_first :: "string \<Rightarrow> PageElement list \<Rightarrow> PageElement option" where
  "find_first n [] = None"
| "find_first n (Str k s # rest) = find_first n rest"
| "find_first n (Tag m attrs cs # rest) =
     (if m = n then Some (Tag m attrs cs)
      else (case find_first n cs of
              Some t \<Rightarrow> Some t
            | None \<Rightarrow> find_first n rest))"

fun find_tag :: "PageElement \<Rightarrow> string \<Rightarrow> PageElement option" where
  "find_tag (Tag m attrs cs) n = find_first n cs"
| "find_tag (Str k s) n = None"

text \<open>
  \<^verbatim>\<open>tag.get_text()\<close>: the strings of class \<^verbatim>\<open>NavigableString\<close> and
  \<^verbatim>\<open>CData\<close> below the tag, joined in document order.
\<close>

fun get_text :: "PageElement \<Rightarrow> string" where
  "get_text (Str k s) = (if k = NavigableString \<or> k = CData then s else [])"
| "get_text (Tag m attrs cs) = concat (map get_text cs)"

text \<open>
  \<^verbatim>\<open>tag.string\<close>: the string of a tag with exactly one child, followed through
  single-child tags; \<^verbatim>\<open>None\<close> otherwise.
\<close>

fun string_of :: "PageElement \<Rightarrow> string option" where
  "string_of (Str k s) = Some s"
| "string_of (Tag m attrs cs) = (case cs of [c] \<Rightarrow> string_of c | _ \<Rightarrow> None)"

subsection \<open>The markup extractor\<close>

text \<open>
  \<^verbatim>\<open>Browser._parse\<close>. The branches are in the source's order: a comment; a tag
  whose name is in the skipped list (a string node has the name \<^verbatim>\<open>None\<close>, which is
  not in the list); any other string; \<^verbatim>\<open>img\<close>; \<^verbatim>\<open>br\<close>; \<^verbatim>\<open>a\<close>;
  every other tag. In the \<^verbatim>\<open>a\<close> branch \<^verbatim>\<open>hasattr(element, "children")\<close>
  holds of every tag, so \<^verbatim>\<open>element.string\<close> is always replaced by the first
  child or the branch returns.
\<close>

definition skipped :: "string list" where
  "skipped = [''style'', ''script'', ''head'', ''title'', ''meta'', ''[document]'']"

fun parse' :: "PageElement \<Rightarrow> HTMLMarkup list" where
  "parse' (Str Comment s) = []"
| "parse' (Str k s) = (if isspace s then [] else [HTMLMarkupText s False False])"
| "parse' (Tag n attrs children) =
     (if List.member skipped n then []
      else if n = ''img'' then [HTMLMarkupImage (get attrs ''src'') (get attrs ''alt'')]
      else if n = ''br'' then [HTMLMarkupText [CHR 0x0A] False False]
      else if n = ''a'' then
        (case children of
           [] \<Rightarrow> []
         | child # rest \<Rightarrow>
             (case child of
                Str NavigableString text \<Rightarrow>
                  (if isspace text then []
                   else [HTMLMarkupLink (get attrs ''href'') (Some text) None])
              | _ \<Rightarrow>
                  [HTMLMarkupLink (get attrs ''href'') None
                     (Some (concat (map parse' children)))]))
      else concat (map parse' children))"

text \<open>
  \<^verbatim>\<open>Browser._parse_as_plaintext\<close>: the non-empty lines of the text, each stripped.
\<close>

definition parse_as_plaintext' :: "string \<Rightarrow> HTMLMarkup list" where
  "parse_as_plaintext' text =
     map (\<lambda>line. HTMLMarkupText (strip line) False False)
       (filter (\<lambda>line. line \<noteq> []) (split (CHR 0x0A) text))"

text \<open>
  \<^verbatim>\<open>Browser.parse\<close>, lines 97 to 106, with \<open>body\<close> the node that
  \<^verbatim>\<open>soup.body\<close> holds there: the body tag, or the html tag the source stored in
  its place. \<^verbatim>\<open>soup.head.title\<close> reads an attribute of \<^verbatim>\<open>soup.head\<close>,
  which raises \<^verbatim>\<open>AttributeError\<close> when the document has no head tag.
\<close>

definition parse_body :: "PageElement \<Rightarrow> PageElement \<Rightarrow> error + HTMLMarkup list" where
  "parse_body soup body =
     (let parsedContent = parse' body in
      case find_tag soup ''head'' of
        None \<Rightarrow> Inl AttributeError
      | Some head \<Rightarrow>
          (let parsedContent =
                 (case find_tag head ''title'' of
                    Some title \<Rightarrow> HTMLMarkupTitle (string_of title) # parsedContent
                  | None \<Rightarrow> parsedContent)
           in if length parsedContent = 0 then Inr [HTMLMarkupError ''Empty Page'']
              else Inr parsedContent))"

text \<open>
  \<^verbatim>\<open>Browser.parse\<close>. The parse library is a parameter: \<open>BeautifulSoup\<close> maps the
  raw markup to the document tree.
\<close>

definition parse :: "(string \<Rightarrow> PageElement) \<Rightarrow> WebsiteContent \<Rightarrow> error + HTMLMarkup list" where
  "parse BeautifulSoup content =
     (if \<not> success content then Inr [HTMLMarkupError (errmsg content)]
      else
        (let soup = BeautifulSoup (html content) in
         case find_tag soup ''body'' of
           None \<Rightarrow>
             (let text = get_text soup in
              if length text \<noteq> 0 then
                (case find_tag soup ''html'' of
                   Some root \<Rightarrow> parse_body soup root
                 | None \<Rightarrow> Inr (parse_as_plaintext' text))
              else Inr [HTMLMarkupError ''Empty Page''])
         | Some body \<Rightarrow> parse_body soup body))"

subsection \<open>Acquisition: the query classification\<close>

text \<open>
  The file system and the network are parameters. A path names nothing, a directory, or a
  regular file; reading a regular file as text gives its contents or raises (a file that
  cannot be opened or decoded), which the source does not catch.
\<close>

datatype fs_entry = Directory | RegularFile "string option"

type_synonym filesystem = "string \<Rightarrow> fs_entry option"

definition path_exists :: "filesystem \<Rightarrow> string \<Rightarrow> bool" where
  "path_exists fs path = (case fs path of None \<Rightarrow> False | Some entry \<Rightarrow> True)"

definition path_isfile :: "filesystem \<Rightarrow> string \<Rightarrow> bool" where
  "path_isfile fs path = (case fs path of Some (RegularFile contents) \<Rightarrow> True | _ \<Rightarrow> False)"

definition read_file :: "filesystem \<Rightarrow> string \<Rightarrow> error + string" where
  "read_file fs path =
     (case fs path of
        Some (RegularFile (Some contents)) \<Rightarrow> Inr contents
      | _ \<Rightarrow> Inl OSError)"

text \<open>
  \<^verbatim>\<open>urllib.request.urlopen(req).read().decode("utf-8")\<close>: the page, one of the
  exceptions \<^verbatim>\<open>_web_search\<close> catches (with its message), or any other exception.
\<close>

datatype fetch = Fetched string | Caught string | Uncaught

text \<open>\<^verbatim>\<open>Browser._web_search\<close>.\<close>

definition web_search' :: "(string \<Rightarrow> fetch) \<Rightarrow> string \<Rightarrow> error + WebsiteContent" where
  "web_search' urlopen url =
     (case urlopen url of
        Fetched page \<Rightarrow> Inr \<lparr>html = page, success = True, errmsg = []\<rparr>
      | Caught err \<Rightarrow> Inr \<lparr>html = [], success = False, errmsg = err\<rparr>
      | Uncaught \<Rightarrow> Inl UncaughtError)"

text \<open>\<^verbatim>\<open>Browser._file_search\<close>. The message quotes the path in apostrophes.\<close>

definition file_search' :: "filesystem \<Rightarrow> string \<Rightarrow> error + WebsiteContent" where
  "file_search' fs path =
     (if \<not> path_exists fs path \<or> \<not> path_isfile fs path \<or>
         \<not> endswith (lower path) ''.html''
      then Inr \<lparr>html = [], success = False,
                errmsg = CHR 0x27 # path @ CHR 0x27 # '' is not a valid path to an HTML file.''\<rparr>
      else (case read_file fs path of
              Inl e \<Rightarrow> Inl e
            | Inr page \<Rightarrow> Inr \<lparr>html = page, success = True, errmsg = []\<rparr>))"

text \<open>
  \<^verbatim>\<open>Browser._is_path\<close>: \<^verbatim>\<open>string[0]\<close> raises \<^verbatim>\<open>IndexError\<close> on the
  empty string.
\<close>

definition is_path' :: "filesystem \<Rightarrow> string \<Rightarrow> error + bool" where
  "is_path' fs string =
     (case string of
        [] \<Rightarrow> Inl IndexError
      | c # cs \<Rightarrow>
          Inr (c = CHR ''~'' \<or> c = CHR ''/'' \<or> c = CHR ''.'' \<or> path_exists fs string))"

text \<open>\<^verbatim>\<open>Browser.search\<close>.\<close>

definition search :: "filesystem \<Rightarrow> (string \<Rightarrow> fetch) \<Rightarrow> string \<Rightarrow> error + WebsiteContent" where
  "search fs urlopen query =
     (case is_path' fs query of
        Inl e \<Rightarrow> Inl e
      | Inr True \<Rightarrow> file_search' fs query
      | Inr False \<Rightarrow>
          web_search' urlopen
            (if \<not> contains query ''://'' then ''http://'' @ query else query))"

subsection \<open>The viewport: window and scroll state\<close>

text \<open>
  The fields of \<^verbatim>\<open>Display\<close> that \<^verbatim>\<open>draw\<close> and \<^verbatim>\<open>_scroll\<close> read and
  write. Python's integers are unbounded, so they are \<open>int\<close>.
\<close>

record Display =
  top' :: int
  bottom' :: int
  max_lines' :: int
  current_line' :: int
  current_content' :: "HTMLMarkup list option"

text \<open>
  A Python slice \<^verbatim>\<open>xs[i:j]\<close>: a negative index counts from the end, and both
  indices are clipped to the list; the slice is empty when the start is not before the
  stop.
\<close>

definition slice_index :: "nat \<Rightarrow> int \<Rightarrow> nat" where
  "slice_index n i =
     (if i < 0 then (if i + int n < 0 then 0 else nat (i + int n))
      else if int n < i then n else nat i)"

definition slice :: "'a list \<Rightarrow> int \<Rightarrow> int \<Rightarrow> 'a list" where
  "slice xs i j =
     (let start = slice_index (length xs) i; stop = slice_index (length xs) j
      in take (stop - start) (drop start xs))"

text \<open>
  What \<^verbatim>\<open>Display.draw\<close> puts on the content window: the error page, or the title
  row and the window \<^verbatim>\<open>page\<close> of elements it hands to \<^verbatim>\<open>_draw\<close> one by one.
  The painting of one element (\<^verbatim>\<open>Display._draw\<close>, with the text wrapping and the
  writes of the curses library) is not part of the model; writes of the heading rows are
  taken to fit the window.
\<close>

datatype screen = ErrorPage string | Page "string option" "HTMLMarkup list"

text \<open>
  \<^verbatim>\<open>Display.draw\<close>. \<^verbatim>\<open>content[0]\<close> raises \<^verbatim>\<open>IndexError\<close> on an empty
  sequence; \<^verbatim>\<open>addstr\<close> raises \<^verbatim>\<open>TypeError\<close> for a title that is
  \<^verbatim>\<open>None\<close>. The result comes with the display, which holds the content drawn.
\<close>

definition draw :: "Display \<Rightarrow> HTMLMarkup list \<Rightarrow> (error + screen) \<times> Display" where
  "draw self content =
     (let self = self\<lparr>current_content' := Some content\<rparr> in
      case content of
        [] \<Rightarrow> (Inl IndexError, self)
      | first # rest \<Rightarrow>
          (let page = slice (drop 1 content) (current_line' self)
                        (current_line' self + max_lines' self)
           in case first of
                HTMLMarkupError msg \<Rightarrow> (Inr (ErrorPage msg), self)
              | HTMLMarkupTitle None \<Rightarrow> (Inl TypeError, self)
              | HTMLMarkupTitle (Some title) \<Rightarrow> (Inr (Page (Some title) page), self)
              | _ \<Rightarrow> (Inr (Page None page), self)))"

text \<open>
  \<^verbatim>\<open>Display._scroll\<close>, with \<^verbatim>\<open>UP = -1\<close> and \<^verbatim>\<open>DOWN = 1\<close>. It redraws the
  content held; subscripting \<^verbatim>\<open>None\<close>, when nothing was drawn yet, raises
  \<^verbatim>\<open>TypeError\<close>.
\<close>

definition UP :: int where
  "UP = - 1"

definition DOWN :: int where
  "DOWN = 1"

definition scroll' :: "Display \<Rightarrow> int \<Rightarrow> (error + screen) \<times> Display" where
  "scroll' self direction =
     (let next_line = current_line' self + direction;
          self =
            (if next_line < bottom' self \<and> top' self + next_line < bottom' self
             then self\<lparr>current_line' := next_line\<rparr>
             else if next_line = bottom' self \<and> top' self + max_lines' self < bottom' self
             then self\<lparr>top' := top' self + 1\<rparr>
             else self)
      in case current_content' self of
           None \<Rightarrow> (Inl TypeError, self)
         | Some content \<Rightarrow> draw self content)"

text \<open>
  \<^verbatim>\<open>Display._reset_page_coordinates\<close>; \<open>height\<close> is the row count of the content
  window, \<^verbatim>\<open>content_win.getmaxyx()[0]\<close>.
\<close>

definition reset_page_coordinates' :: "Display \<Rightarrow> int \<Rightarrow> Display" where
  "reset_page_coordinates' self height =
     self\<lparr>top' := 0, bottom' := height, max_lines' := height - 2, current_line' := 0\<rparr>"

text \<open>
  The display after a run of scroll commands, as \<^verbatim>\<open>await_command\<close> issues them one
  after another. A command whose redraw raises ends the program; the displays the
  program reaches are among the ones this function reaches.
\<close>

fun scroll_all :: "Display \<Rightarrow> int list \<Rightarrow> Display" where
  "scroll_all self [] = self"
| "scroll_all self (direction # rest) = scroll_all (snd (scroll' self direction)) rest"

text \<open>
  The visible window as the specification words it: the body is the sequence without
  its leading title or error element, when it has one, and the window is the body from
  \<open>current_line\<close> up to \<open>current_line + max_visible_lines\<close>, exclusive.
\<close>

definition window_spec :: "Display \<Rightarrow> HTMLMarkup list \<Rightarrow> HTMLMarkup list" where
  "window_spec self content =
     (let body =
            (case content of
               [] \<Rightarrow> []
             | first # rest \<Rightarrow>
                 if name first = ''title'' \<or> name first = ''error'' then rest else content)
      in slice body (current_line' self) (current_line' self + max_lines' self))"

section \<open>Properties\<close>

subsection \<open>Lemmas on the extractor\<close>

text \<open>\<^verbatim>\<open>_parse\<close> and the plaintext fallback build no title element.\<close>

lemma parse'_no_title: "HTMLMarkupTitle t \<notin> set (parse' n)"
  by (induction n rule: parse'.induct)
     (auto split: list.splits PageElement.splits string_class.splits)

lemma plaintext_no_title: "HTMLMarkupTitle t \<notin> set (parse_as_plaintext' s)"
  by (auto simp: parse_as_plaintext'_def)

text \<open>The three ways the last lines of \<^verbatim>\<open>parse\<close> end.\<close>

lemma parse_body_no_head:
  "find_tag soup ''head'' = None \<Longrightarrow> parse_body soup body = Inl AttributeError"
  by (simp add: parse_body_def)

lemma parse_body_title:
  "find_tag soup ''head'' = Some head \<Longrightarrow> find_tag head ''title'' = Some title \<Longrightarrow>
   parse_body soup body = Inr (HTMLMarkupTitle (string_of title) # parse' body)"
  by (simp add: parse_body_def)

lemma parse_body_no_title:
  "find_tag soup ''head'' = Some head \<Longrightarrow> find_tag head ''title'' = None \<Longrightarrow>
   parse_body soup body =
     Inr (if parse' body = [] then [HTMLMarkupError ''Empty Page''] else parse' body)"
  by (simp add: parse_body_def)

lemma parse_body_returns_no_title:
  assumes "\<forall>head. find_tag soup ''head'' = Some head \<longrightarrow> find_tag head ''title'' = None"
      and "parse_body soup body = Inr xs"
  shows "HTMLMarkupTitle t \<notin> set xs"
proof (cases "find_tag soup ''head''")
  case None
  with assms(2) show ?thesis by (simp add: parse_body_no_head)
next
  case (Some head)
  with assms(1) have "find_tag head ''title'' = None" by simp
  with Some assms(2) show ?thesis
    by (auto simp: parse_body_no_title parse'_no_title split: if_splits)
qed

lemma parse_with_body:
  "success content \<Longrightarrow>
   find_tag (BeautifulSoup (html content)) ''body'' = Some body \<or>
   find_tag (BeautifulSoup (html content)) ''body'' = None \<and>
   get_text (BeautifulSoup (html content)) \<noteq> [] \<and>
   find_tag (BeautifulSoup (html content)) ''html'' = Some body \<Longrightarrow>
   parse BeautifulSoup content = parse_body (BeautifulSoup (html content)) body"
  by (auto simp: parse_def)

lemma parse_returns_cases:
  "parse BeautifulSoup content = Inr xs \<Longrightarrow>
   (\<exists>body. parse_body (BeautifulSoup (html content)) body = Inr xs) \<or>
   xs = parse_as_plaintext' (get_text (BeautifulSoup (html content))) \<or>
   (\<exists>msg. xs = [HTMLMarkupError msg])"
  by (auto simp: parse_def Let_def split: option.splits if_splits)

subsection \<open>Lemmas on the scroll state\<close>

text \<open>A redraw leaves the coordinates alone; a scroll command changes them as follows.\<close>

lemma draw_coords:
  "top' (snd (draw self content)) = top' self"
  "bottom' (snd (draw self content)) = bottom' self"
  "max_lines' (snd (draw self content)) = max_lines' self"
  "current_line' (snd (draw self content)) = current_line' self"
  by (simp_all add: draw_def Let_def split: list.splits HTMLMarkup.splits option.splits)

lemma scroll'_bottom: "bottom' (snd (scroll' self direction)) = bottom' self"
  by (simp add: scroll'_def Let_def draw_coords split: option.splits)

lemma scroll'_current_line:
  "current_line' (snd (scroll' self direction)) =
     (if current_line' self + direction < bottom' self \<and>
         top' self + (current_line' self + direction) < bottom' self
      then current_line' self + direction else current_line' self)"
  by (auto simp add: scroll'_def Let_def draw_coords split: option.splits)

lemma scroll'_top:
  "top' (snd (scroll' self direction)) =
     (if current_line' self + direction < bottom' self \<and>
         top' self + (current_line' self + direction) < bottom' self
      then top' self
      else if current_line' self + direction = bottom' self \<and>
              top' self + max_lines' self < bottom' self
      then top' self + 1 else top' self)"
  by (auto simp add: scroll'_def Let_def draw_coords split: option.splits)

lemma scroll_all_bottom: "bottom' (scroll_all self ds) = bottom' self"
  by (induction ds arbitrary: self) (simp_all add: scroll'_bottom)

lemma scroll_all_below: "current_line' self < bottom' self \<Longrightarrow>
   current_line' (scroll_all self ds) < bottom' self"
proof (induction ds arbitrary: self)
  case Nil
  then show ?case by simp
next
  case (Cons d ds)
  have "current_line' (snd (scroll' self d)) < bottom' (snd (scroll' self d))"
    using Cons.prems by (simp add: scroll'_current_line scroll'_bottom)
  from Cons.IH[OF this] show ?case by (simp add: scroll'_bottom)
qed

lemma scroll_all_top: "top' self \<le> top' (scroll_all self ds)"
proof (induction ds arbitrary: self)
  case Nil
  then show ?case by simp
next
  case (Cons d ds)
  have "top' self \<le> top' (snd (scroll' self d))" by (simp add: scroll'_top)
  also have "\<dots> \<le> top' (scroll_all (snd (scroll' self d)) ds)" by (rule Cons.IH)
  finally show ?case by simp
qed

subsection \<open>Lemmas on the local file search\<close>

lemma endswith_htm_not_html: "endswith path ''.htm'' \<Longrightarrow> \<not> endswith (lower path) ''.html''"
  by (cases "rev path") (auto simp: endswith_def lower_def rev_map lower_char_def)

lemma search_is_file_search:
  "query \<noteq> [] \<Longrightarrow>
   hd query = CHR ''~'' \<or> hd query = CHR ''/'' \<or> hd query = CHR ''.'' \<or> path_exists fs query \<Longrightarrow>
   search fs urlopen query = file_search' fs query"
  by (cases query) (auto simp: search_def is_path'_def)

lemma file_search'_failure:
  "(\<exists>c. file_search' fs path = Inr c \<and> \<not> success c) \<longleftrightarrow>
   \<not> (path_exists fs path \<and> path_isfile fs path \<and> endswith (lower path) ''.html'')"
  by (auto simp: file_search'_def split: sum.splits)

lemma file_search'_success:
  "(\<exists>c. file_search' fs path = Inr c \<and> success c) \<longleftrightarrow>
   (\<exists>page. fs path = Some (RegularFile (Some page))) \<and> endswith (lower path) ''.html''"
  by (auto simp: file_search'_def path_exists_def path_isfile_def read_file_def
           split: sum.splits option.splits fs_entry.splits)

lemma file_search'_page:
  "fs path = Some (RegularFile (Some page)) \<Longrightarrow> endswith (lower path) ''.html'' \<Longrightarrow>
   file_search' fs path = Inr \<lparr>html = page, success = True, errmsg = []\<rparr>"
  by (simp add: file_search'_def path_exists_def path_isfile_def read_file_def)

subsection \<open>The extractor\<close>

text \<open>
  Claim C1: for every fetch status and every markup, \<^verbatim>\<open>parse\<close> never raises and
  returns a non-empty sequence.

  The code does not do so. A successfully fetched document with a body tag and no head
  tag makes \<^verbatim>\<open>soup.head.title\<close> raise \<^verbatim>\<open>AttributeError\<close>: the source tests
  \<^verbatim>\<open>soup.body is None\<close> and \<^verbatim>\<open>soup.head.title is not None\<close>, but not
  \<^verbatim>\<open>soup.head\<close>. The theorem states this for every such document.
\<close>

theorem parse_headless_raises:
  "success content \<Longrightarrow>
   find_tag (BeautifulSoup (html content)) ''body'' = Some body \<Longrightarrow>
   find_tag (BeautifulSoup (html content)) ''head'' = None \<Longrightarrow>
   parse BeautifulSoup content = Inl AttributeError"
  by (simp add: parse_def parse_body_no_head)

text \<open>
  The input the code fails on: the markup
  \<^verbatim>\<open><html><body><h1>Hi</h1></body></html>\<close>, for which the parse library builds
  no head tag. The second conjunct is the other way the property fails: the plaintext
  fallback returns early, before the check for an empty sequence, so the markup of a
  single newline yields the empty sequence.
\<close>

theorem parse_headless_raises_witness:
  "parse (\<lambda>markup. Tag ''[document]'' []
            [Tag ''html'' [] [Tag ''body'' [] [Tag ''h1'' [] [Str NavigableString ''Hi'']]]])
     \<lparr>html = ''<html><body><h1>Hi</h1></body></html>'', success = True, errmsg = []\<rparr>
   = Inl AttributeError \<and>
   parse (\<lambda>markup. Tag ''[document]'' [] [Str NavigableString [CHR 0x0A]])
     \<lparr>html = [CHR 0x0A], success = True, errmsg = []\<rparr>
   = Inr []"
proof
  show "parse (\<lambda>markup. Tag ''[document]'' []
            [Tag ''html'' [] [Tag ''body'' [] [Tag ''h1'' [] [Str NavigableString ''Hi'']]]])
     \<lparr>html = ''<html><body><h1>Hi</h1></body></html>'', success = True, errmsg = []\<rparr>
   = Inl AttributeError"
    using parse_headless_raises
      [of "\<lparr>html = ''<html><body><h1>Hi</h1></body></html>'', success = True, errmsg = []\<rparr>"
          "\<lambda>markup. Tag ''[document]'' []
            [Tag ''html'' [] [Tag ''body'' [] [Tag ''h1'' [] [Str NavigableString ''Hi'']]]]"
          "Tag ''body'' [] [Tag ''h1'' [] [Str NavigableString ''Hi'']]"]
    by simp
  show "parse (\<lambda>markup. Tag ''[document]'' [] [Str NavigableString [CHR 0x0A]])
     \<lparr>html = [CHR 0x0A], success = True, errmsg = []\<rparr> = Inr []"
    by (simp add: parse_def parse_as_plaintext'_def)
qed

text \<open>
  Claim C4: if the fetch status has \<open>success = False\<close> with the message \<open>m\<close>,
  \<^verbatim>\<open>parse\<close> returns exactly \<open>[Error m]\<close>, whatever the raw markup is and
  whatever the parse library would make of it.
\<close>

theorem parse_failed_fetch:
  "\<not> success content \<Longrightarrow>
   parse BeautifulSoup (content\<lparr>html := markup\<rparr>) = Inr [HTMLMarkupError (errmsg content)]"
  by (simp add: parse_def)

text \<open>A failed fetch with the message \<^verbatim>\<open>timeout\<close>.\<close>

theorem parse_failed_fetch_witness:
  "parse (\<lambda>markup. Tag ''[document]'' [] [Str NavigableString markup])
     \<lparr>html = ''<p>hi</p>'', success = False, errmsg = ''timeout''\<rparr>
   = Inr [HTMLMarkupError ''timeout'']"
  using parse_failed_fetch
    [of "\<lparr>html = [], success = False, errmsg = ''timeout''\<rparr>"
        "\<lambda>markup. Tag ''[document]'' [] [Str NavigableString markup]" "''<p>hi</p>''"]
  by simp

text \<open>
  Claim C5, as amended: an \<^verbatim>\<open>a\<close> tag with no children contributes nothing; one
  whose sole child is a plain text node that is not whitespace-only
  (\<^verbatim>\<open>isspace()\<close> is false) contributes exactly one link with that text and no
  children, and one whose sole child is a whitespace-only text node contributes nothing;
  one whose first child is a nested tag contributes exactly one link with no text and,
  as children, the concatenation of the extraction of every child in document order.
\<close>

theorem anchor_contribution:
  "parse' (Tag ''a'' attrs []) = [] \<and>
   (\<not> isspace text \<longrightarrow>
      parse' (Tag ''a'' attrs [Str NavigableString text]) =
      [HTMLMarkupLink (get attrs ''href'') (Some text) None]) \<and>
   (isspace text \<longrightarrow> parse' (Tag ''a'' attrs [Str NavigableString text]) = []) \<and>
   parse' (Tag ''a'' attrs (Tag n nested_attrs children # rest)) =
     [HTMLMarkupLink (get attrs ''href'') None
        (Some (concat (map parse' (Tag n nested_attrs children # rest))))]"
  by (simp add: skipped_def)

text \<open>The three cases on \<^verbatim>\<open><a href="/x">\<close> anchors.\<close>

theorem anchor_contribution_witness:
  "parse' (Tag ''a'' [(''href'', ''/x'')] []) = [] \<and>
   \<not> isspace ''click'' \<and>
   parse' (Tag ''a'' [(''href'', ''/x'')] [Str NavigableString ''click'']) =
     [HTMLMarkupLink (Some ''/x'') (Some ''click'') None] \<and>
   parse' (Tag ''a'' [(''href'', ''/x'')]
             [Tag ''b'' [] [Str NavigableString ''bold''], Str NavigableString '' text'']) =
     [HTMLMarkupLink (Some ''/x'') None
        (Some [HTMLMarkupText ''bold'' False False, HTMLMarkupText '' text'' False False])]"
  using anchor_contribution
    [of "[(''href'', ''/x'')]" "''click''" "''b''" "[]" "[Str NavigableString ''bold'']"
        "[Str NavigableString '' text'']"]
  by (simp add: get_def isspace_def whitespace_def skipped_def)

text \<open>
  Claim C5 as stated fails: the text node of one space is not empty, and the anchor
  \<^verbatim>\<open><a href="/x"> </a>\<close> contributes no link.
\<close>

theorem anchor_whitespace_counterexample:
  "'' '' \<noteq> [] \<and>
   parse' (Tag ''a'' [(''href'', ''/x'')] [Str NavigableString '' '']) = []"
  by (simp add: skipped_def isspace_def whitespace_def)

text \<open>
  Claim C8, as amended: for every successfully fetched document that has a head tag and
  a body tag (or, without a body tag, non-empty text and an html tag, which is then
  extracted in place of the body): if the head contains a title, \<^verbatim>\<open>parse\<close>
  returns the title element carrying the title's string, followed by the extraction of
  the body; if it contains none, \<^verbatim>\<open>parse\<close> returns a sequence. For every
  document whose head (if any) contains no title, a sequence that \<^verbatim>\<open>parse\<close>
  returns holds no title element.
\<close>

theorem parse_title:
  "(success content \<and> soup = BeautifulSoup (html content) \<and>
    find_tag soup ''head'' = Some head \<and>
    (find_tag soup ''body'' = Some body \<or>
     find_tag soup ''body'' = None \<and> get_text soup \<noteq> [] \<and>
     find_tag soup ''html'' = Some body) \<longrightarrow>
    (\<forall>title. find_tag head ''title'' = Some title \<longrightarrow>
       parse BeautifulSoup content = Inr (HTMLMarkupTitle (string_of title) # parse' body)) \<and>
    (find_tag head ''title'' = None \<longrightarrow>
       (\<exists>xs. parse BeautifulSoup content = Inr xs))) \<and>
   ((\<forall>head. find_tag (BeautifulSoup (html content)) ''head'' = Some head \<longrightarrow>
       find_tag head ''title'' = None) \<and>
    parse BeautifulSoup content = Inr xs \<longrightarrow> HTMLMarkupTitle t \<notin> set xs)"
proof (intro conjI impI allI)
  fix title
  assume a: "success content \<and> soup = BeautifulSoup (html content) \<and>
    find_tag soup ''head'' = Some head \<and>
    (find_tag soup ''body'' = Some body \<or>
     find_tag soup ''body'' = None \<and> get_text soup \<noteq> [] \<and>
     find_tag soup ''html'' = Some body)"
    and t: "find_tag head ''title'' = Some title"
  from a have "parse BeautifulSoup content = parse_body soup body"
    using parse_with_body[of content BeautifulSoup body] by blast
  moreover from a t have "parse_body soup body =
      Inr (HTMLMarkupTitle (string_of title) # parse' body)"
    using parse_body_title[of soup head title body] by blast
  ultimately show "parse BeautifulSoup content =
      Inr (HTMLMarkupTitle (string_of title) # parse' body)"
    by simp
next
  assume a: "success content \<and> soup = BeautifulSoup (html content) \<and>
    find_tag soup ''head'' = Some head \<and>
    (find_tag soup ''body'' = Some body \<or>
     find_tag soup ''body'' = None \<and> get_text soup \<noteq> [] \<and>
     find_tag soup ''html'' = Some body)"
    and t: "find_tag head ''title'' = None"
  from a have "parse BeautifulSoup content = parse_body soup body"
    using parse_with_body[of content BeautifulSoup body] by blast
  moreover from a t have "\<exists>xs. parse_body soup body = Inr xs"
    using parse_body_no_title[of soup head body] by blast
  ultimately show "\<exists>xs. parse BeautifulSoup content = Inr xs"
    by simp
next
  assume a: "(\<forall>head. find_tag (BeautifulSoup (html content)) ''head'' = Some head \<longrightarrow>
       find_tag head ''title'' = None) \<and> parse BeautifulSoup content = Inr xs"
  then have nt: "\<forall>head. find_tag (BeautifulSoup (html content)) ''head'' = Some head \<longrightarrow>
       find_tag head ''title'' = None" and r: "parse BeautifulSoup content = Inr xs"
    by simp_all
  from parse_returns_cases[OF r] show "HTMLMarkupTitle t \<notin> set xs"
    using parse_body_returns_no_title[OF nt] plaintext_no_title by auto
qed

text \<open>A document with a head, a title and a body.\<close>

theorem parse_title_witness:
  "parse (\<lambda>markup. Tag ''[document]'' []
            [Tag ''html'' []
               [Tag ''head'' [] [Tag ''title'' [] [Str NavigableString ''Home'']],
                Tag ''body'' [] [Tag ''h1'' [] [Str NavigableString ''Hi'']]]])
     \<lparr>html = ''<html><head><title>Home</title></head><body><h1>Hi</h1></body></html>'',
      success = True, errmsg = []\<rparr>
   = Inr [HTMLMarkupTitle (Some ''Home''), HTMLMarkupText ''Hi'' False False]"
  using parse_title
    [of "\<lparr>html = ''<html><head><title>Home</title></head><body><h1>Hi</h1></body></html>'',
          success = True, errmsg = []\<rparr>"
        "Tag ''[document]'' []
            [Tag ''html'' []
               [Tag ''head'' [] [Tag ''title'' [] [Str NavigableString ''Home'']],
                Tag ''body'' [] [Tag ''h1'' [] [Str NavigableString ''Hi'']]]]"
        "\<lambda>markup. Tag ''[document]'' []
            [Tag ''html'' []
               [Tag ''head'' [] [Tag ''title'' [] [Str NavigableString ''Home'']],
                Tag ''body'' [] [Tag ''h1'' [] [Str NavigableString ''Hi'']]]]"
        "Tag ''head'' [] [Tag ''title'' [] [Str NavigableString ''Home'']]"
        "Tag ''body'' [] [Tag ''h1'' [] [Str NavigableString ''Hi'']]"]
  by (simp add: skipped_def isspace_def whitespace_def)

text \<open>
  Claim C8 as stated fails: the markup \<^verbatim>\<open><head><title>T</title></head>\<close> has a
  title in its head, but neither a body nor an html tag, so the plaintext fallback
  returns the text of the title as a text element and no title element.
\<close>

theorem title_plaintext_counterexample:
  "find_tag (Tag ''head'' [] [Tag ''title'' [] [Str NavigableString ''T'']]) ''title''
     = Some (Tag ''title'' [] [Str NavigableString ''T'']) \<and>
   parse (\<lambda>markup. Tag ''[document]'' []
            [Tag ''head'' [] [Tag ''title'' [] [Str NavigableString ''T'']]])
     \<lparr>html = ''<head><title>T</title></head>'', success = True, errmsg = []\<rparr>
   = Inr [HTMLMarkupText ''T'' False False]"
  by (simp add: parse_def parse_as_plaintext'_def strip_def whitespace_def)

subsection \<open>The query classification\<close>

text \<open>
  Claim C9, as amended: a non-empty query that begins with \<^verbatim>\<open>~\<close>,
  \<^verbatim>\<open>/\<close> or \<^verbatim>\<open>.\<close>, or names an existing path, is searched as a local file.
  The search yields a success result if and only if the path is a regular file that can
  be read and its lower-cased name ends in \<^verbatim>\<open>.html\<close>, and then the result
  carries the file's contents; it yields a failure result if and only if the path does
  not exist, is not a regular file, or its lower-cased name does not end in
  \<^verbatim>\<open>.html\<close>. In particular a name that ends in \<^verbatim>\<open>.htm\<close> yields a
  failure result.
\<close>

theorem search_local_path:
  assumes "query \<noteq> []"
    and "hd query = CHR ''~'' \<or> hd query = CHR ''/'' \<or> hd query = CHR ''.'' \<or>
         path_exists fs query"
  shows "search fs urlopen query = file_search' fs query \<and>
    ((\<exists>c. search fs urlopen query = Inr c \<and> success c) \<longleftrightarrow>
       (\<exists>page. fs query = Some (RegularFile (Some page))) \<and> endswith (lower query) ''.html'') \<and>
    ((\<exists>c. search fs urlopen query = Inr c \<and> \<not> success c) \<longleftrightarrow>
       \<not> (path_exists fs query \<and> path_isfile fs query \<and> endswith (lower query) ''.html'')) \<and>
    (fs query = Some (RegularFile (Some page)) \<and> endswith (lower query) ''.html'' \<longrightarrow>
       search fs urlopen query = Inr \<lparr>html = page, success = True, errmsg = []\<rparr>) \<and>
    (endswith query ''.htm'' \<longrightarrow> (\<exists>c. search fs urlopen query = Inr c \<and> \<not> success c))"
proof -
  have eq: "search fs urlopen query = file_search' fs query"
    using assms by (rule search_is_file_search)
  show ?thesis
    unfolding eq
    using file_search'_failure[of fs query] file_search'_success[of fs query]
      file_search'_page[of fs query page] endswith_htm_not_html[of query]
    by blast
qed

text \<open>An existing regular file \<^verbatim>\<open>./index.HTML\<close>.\<close>

theorem search_local_path_witness:
  "''./index.HTML'' \<noteq> [] \<and> hd ''./index.HTML'' = CHR ''.'' \<and>
   search (\<lambda>path. if path = ''./index.HTML'' then Some (RegularFile (Some ''<p>x</p>'')) else None)
     (\<lambda>url. Uncaught) ''./index.HTML''
   = Inr \<lparr>html = ''<p>x</p>'', success = True, errmsg = []\<rparr>"
proof -
  let ?fs = "\<lambda>path. if path = ''./index.HTML''
                     then Some (RegularFile (Some ''<p>x</p>'')) else None"
  have suffix: "endswith (lower ''./index.HTML'') ''.html''"
    by code_simp
  have nonempty: "''./index.HTML'' \<noteq> []"
    by simp
  have dot: "hd ''./index.HTML'' = CHR ''~'' \<or> hd ''./index.HTML'' = CHR ''/'' \<or>
             hd ''./index.HTML'' = CHR ''.'' \<or> path_exists ?fs ''./index.HTML''"
    by simp
  have "?fs ''./index.HTML'' = Some (RegularFile (Some ''<p>x</p>'')) \<and>
        endswith (lower ''./index.HTML'') ''.html'' \<longrightarrow>
        search ?fs (\<lambda>url. Uncaught) ''./index.HTML''
          = Inr \<lparr>html = ''<p>x</p>'', success = True, errmsg = []\<rparr>"
    using search_local_path [OF nonempty dot, of "\<lambda>url. Uncaught" "''<p>x</p>''"]
    by blast
  with suffix show ?thesis
    by simp
qed

text \<open>
  Claim C9 as stated fails: the existing, readable regular file \<^verbatim>\<open>./a.htm\<close>
  yields a failure result.
\<close>

theorem search_htm_counterexample:
  "search (\<lambda>path. if path = ''./a.htm'' then Some (RegularFile (Some ''<p>x</p>'')) else None)
     (\<lambda>url. Uncaught) ''./a.htm''
   = Inr \<lparr>html = [], success = False,
          errmsg = CHR 0x27 # ''./a.htm'' @ CHR 0x27 # '' is not a valid path to an HTML file.''\<rparr>"
  by (simp add: search_def is_path'_def file_search'_def path_exists_def path_isfile_def
        endswith_def lower_def lower_char_def)

subsection \<open>The visible window\<close>

text \<open>
  Claim C2: the window drawn is the body from \<open>current_line\<close> up to
  \<open>current_line + max_visible_lines\<close>, where the body leaves out the first
  element only if it is a title or an error.

  The code does not do so. \<^verbatim>\<open>content[1:]\<close> leaves out the first element of
  every sequence; the line \<^verbatim>\<open>#content.pop(0)\<close>, commented out in the branch for
  a title, shows the case it was meant for. The theorem states what \<^verbatim>\<open>draw\<close>
  puts in the window when the first element is neither a title nor an error: the slice
  of the remaining elements.
\<close>

theorem draw_drops_first_element:
  "name first \<noteq> ''error'' \<Longrightarrow> name first \<noteq> ''title'' \<Longrightarrow>
   fst (draw self (first # rest)) =
     Inr (Page None (slice rest (current_line' self) (current_line' self + max_lines' self)))"
  by (cases first) (simp_all add: draw_def Let_def)

text \<open>
  The input the code fails on: the sequence of the one text element \<^verbatim>\<open>Hi\<close>, at
  scroll position 0. The window drawn is empty; the window as the specification words
  it holds the text element.
\<close>

theorem draw_drops_first_element_witness:
  "fst (draw \<lparr>top' = 0, bottom' = 10, max_lines' = 8, current_line' = 0,
              current_content' = None\<rparr> [HTMLMarkupText ''Hi'' False False])
     = Inr (Page None []) \<and>
   window_spec \<lparr>top' = 0, bottom' = 10, max_lines' = 8, current_line' = 0,
                current_content' = None\<rparr> [HTMLMarkupText ''Hi'' False False]
     = [HTMLMarkupText ''Hi'' False False]"
  using draw_drops_first_element
    [of "HTMLMarkupText ''Hi'' False False"
        "\<lparr>top' = 0, bottom' = 10, max_lines' = 8, current_line' = 0,
          current_content' = None\<rparr>" "[]"]
  by (simp add: window_spec_def slice_def slice_index_def)

text \<open>With a leading title the window drawn is the one the specification words.\<close>

lemma draw_title_window:
  "fst (draw self (HTMLMarkupTitle (Some title) # rest)) =
     Inr (Page (Some title) (window_spec self (HTMLMarkupTitle (Some title) # rest)))"
  by (simp add: draw_def window_spec_def Let_def)

subsection \<open>The scroll state\<close>

text \<open>
  Claim C3, as amended: every scroll command keeps \<open>current_line\<close> below
  \<open>bottom_bound\<close>, the row count of the viewport (not the number of content
  rows), so it does in every state reached by scroll commands after a reset for a
  viewport of at least one row; and \<^verbatim>\<open>scroll(up)\<close> from \<open>current_line = 0\<close>,
  \<open>top = 0\<close> leaves \<open>top\<close> unchanged when \<open>bottom_bound\<close> is not negative.
\<close>

theorem scroll_current_line_below_bottom:
  "(current_line' self < bottom' self \<longrightarrow>
      current_line' (snd (scroll' self direction)) < bottom' (snd (scroll' self direction))) \<and>
   (0 < height \<longrightarrow>
      current_line' (scroll_all (reset_page_coordinates' self height) directions) < height) \<and>
   (current_line' self = 0 \<and> top' self = 0 \<and> 0 \<le> bottom' self \<longrightarrow>
      top' (snd (scroll' self UP)) = top' self)"
proof (intro conjI impI)
  assume "current_line' self < bottom' self"
  then show "current_line' (snd (scroll' self direction)) < bottom' (snd (scroll' self direction))"
    by (simp add: scroll'_current_line scroll'_bottom)
next
  assume h: "0 < height"
  have "current_line' (reset_page_coordinates' self height)
          < bottom' (reset_page_coordinates' self height)"
    using h by (simp add: reset_page_coordinates'_def)
  from scroll_all_below[OF this, of directions]
  show "current_line' (scroll_all (reset_page_coordinates' self height) directions) < height"
    by (simp add: reset_page_coordinates'_def)
next
  assume "current_line' self = 0 \<and> top' self = 0 \<and> 0 \<le> bottom' self"
  then show "top' (snd (scroll' self UP)) = top' self"
    by (simp add: scroll'_top UP_def)
qed

text \<open>Nine scroll commands after a reset for a viewport of 5 rows.\<close>

theorem scroll_current_line_below_bottom_witness:
  "(0::int) < 5 \<and>
   current_line' (scroll_all
      (reset_page_coordinates'
         \<lparr>top' = 7, bottom' = 0, max_lines' = 0, current_line' = 9,
          current_content' = Some [HTMLMarkupText ''Hi'' False False]\<rparr> 5)
      [DOWN, DOWN, DOWN, DOWN, DOWN, DOWN, UP, DOWN, DOWN]) < 5"
  using scroll_current_line_below_bottom
    [of "\<lparr>top' = 7, bottom' = 0, max_lines' = 0, current_line' = 9,
          current_content' = Some [HTMLMarkupText ''Hi'' False False]\<rparr>"
        DOWN 5 "[DOWN, DOWN, DOWN, DOWN, DOWN, DOWN, UP, DOWN, DOWN]"]
  by simp

text \<open>
  Claim C3 as stated fails: in a viewport of 10 rows showing a title and one content
  row, \<^verbatim>\<open>scroll(up)\<close> from \<open>current_line = 0\<close>, \<open>top = 0\<close> sets
  \<open>current_line\<close> to -1, and \<^verbatim>\<open>scroll(down)\<close> sets it to 1, past the
  only content row.
\<close>

theorem scroll_up_counterexample:
  "current_line' (snd (scroll'
      \<lparr>top' = 0, bottom' = 10, max_lines' = 8, current_line' = 0,
       current_content' =
         Some [HTMLMarkupTitle (Some ''T''), HTMLMarkupText ''Hi'' False False]\<rparr> UP)) = - 1 \<and>
   current_line' (snd (scroll'
      \<lparr>top' = 0, bottom' = 10, max_lines' = 8, current_line' = 0,
       current_content' =
         Some [HTMLMarkupTitle (Some ''T''), HTMLMarkupText ''Hi'' False False]\<rparr> DOWN)) = 1"
  by (simp add: scroll'_current_line UP_def DOWN_def)

text \<open>
  Claim C6, as amended: \<^verbatim>\<open>scroll(down)\<close> from \<open>current_line = 0\<close>,
  \<open>top = 0\<close> in a viewport of at least two rows sets \<open>current_line\<close> to 1 and
  keeps \<open>top\<close> at 0, whatever the number of body rows; it leaves the position
  unchanged if and only if \<open>bottom_bound\<close> is at most 0, or is 1 with
  \<open>max_visible_lines\<close> at least 1.
\<close>

theorem scroll_down_from_origin:
  "current_line' self = 0 \<Longrightarrow> top' self = 0 \<Longrightarrow>
   (2 \<le> bottom' self \<longrightarrow>
      top' (snd (scroll' self DOWN)) = 0 \<and> current_line' (snd (scroll' self DOWN)) = 1) \<and>
   ((top' (snd (scroll' self DOWN)) = 0 \<and> current_line' (snd (scroll' self DOWN)) = 0) \<longleftrightarrow>
      (bottom' self \<le> 0 \<or> bottom' self = 1 \<and> 1 \<le> max_lines' self))"
  by (auto simp add: scroll'_current_line scroll'_top DOWN_def)

text \<open>A viewport of 10 rows.\<close>

theorem scroll_down_from_origin_witness:
  "top' (snd (scroll'
      \<lparr>top' = 0, bottom' = 10, max_lines' = 8, current_line' = 0,
       current_content' = Some [HTMLMarkupText ''Hi'' False False]\<rparr> DOWN)) = 0 \<and>
   current_line' (snd (scroll'
      \<lparr>top' = 0, bottom' = 10, max_lines' = 8, current_line' = 0,
       current_content' = Some [HTMLMarkupText ''Hi'' False False]\<rparr> DOWN)) = 1"
  using scroll_down_from_origin
    [of "\<lparr>top' = 0, bottom' = 10, max_lines' = 8, current_line' = 0,
          current_content' = Some [HTMLMarkupText ''Hi'' False False]\<rparr>"]
  by simp

text \<open>
  Claim C6 as stated fails: with one body row, which is at most the 8 visible lines,
  \<^verbatim>\<open>scroll(down)\<close> from \<open>current_line = 0\<close>, \<open>top = 0\<close> moves
  \<open>current_line\<close> to 1.
\<close>

theorem scroll_down_counterexample:
  "length (drop 1 [HTMLMarkupTitle (Some ''T''), HTMLMarkupText ''Hi'' False False]) \<le> 8 \<and>
   top' (snd (scroll'
      \<lparr>top' = 0, bottom' = 10, max_lines' = 8, current_line' = 0,
       current_content' =
         Some [HTMLMarkupTitle (Some ''T''), HTMLMarkupText ''Hi'' False False]\<rparr> DOWN)) = 0 \<and>
   current_line' (snd (scroll'
      \<lparr>top' = 0, bottom' = 10, max_lines' = 8, current_line' = 0,
       current_content' =
         Some [HTMLMarkupTitle (Some ''T''), HTMLMarkupText ''Hi'' False False]\<rparr> DOWN)) = 1"
  by (simp add: scroll'_current_line scroll'_top DOWN_def)

text \<open>
  Claim C7: from a position where \<^verbatim>\<open>scroll(down)\<close> takes the normal-scroll
  branch (\<open>current_line + 1 < bottom_bound\<close> and
  \<open>top + current_line + 1 < bottom_bound\<close>), \<^verbatim>\<open>scroll(down)\<close> followed by
  \<^verbatim>\<open>scroll(up)\<close> restores the pair \<open>(top, current_line)\<close>.
\<close>

theorem scroll_round_trip:
  "current_line' self + 1 < bottom' self \<Longrightarrow>
   top' self + (current_line' self + 1) < bottom' self \<Longrightarrow>
   current_line' (snd (scroll' self DOWN)) = current_line' self + 1 \<and>
   top' (snd (scroll' (snd (scroll' self DOWN)) UP)) = top' self \<and>
   current_line' (snd (scroll' (snd (scroll' self DOWN)) UP)) = current_line' self"
  by (simp add: scroll'_top scroll'_current_line scroll'_bottom UP_def DOWN_def)

text \<open>Line 3 of a viewport of 10 rows.\<close>

theorem scroll_round_trip_witness:
  "top' (snd (scroll' (snd (scroll'
      \<lparr>top' = 0, bottom' = 10, max_lines' = 8, current_line' = 3,
       current_content' = Some [HTMLMarkupText ''Hi'' False False]\<rparr> DOWN)) UP)) = 0 \<and>
   current_line' (snd (scroll' (snd (scroll'
      \<lparr>top' = 0, bottom' = 10, max_lines' = 8, current_line' = 3,
       current_content' = Some [HTMLMarkupText ''Hi'' False False]\<rparr> DOWN)) UP)) = 3"
  using scroll_round_trip
    [of "\<lparr>top' = 0, bottom' = 10, max_lines' = 8, current_line' = 3,
          current_content' = Some [HTMLMarkupText ''Hi'' False False]\<rparr>"]
  by simp

text \<open>
  Claim C10: no scroll command, up or down, decreases \<open>top\<close>, so \<open>top\<close>
  does not decrease along any run of scroll commands and, once positive, is not 0 again
  after any of them; \<^verbatim>\<open>_reset_page_coordinates\<close> sets it to 0.
\<close>

theorem scroll_top_monotone:
  "top' self \<le> top' (snd (scroll' self direction)) \<and>
   top' self \<le> top' (scroll_all self ds) \<and>
   (0 < top' self \<longrightarrow> top' (scroll_all self ds) \<noteq> 0) \<and>
   top' (reset_page_coordinates' self height) = 0"
  using scroll_all_top[of self ds]
  by (simp add: scroll'_top reset_page_coordinates'_def)

text \<open>
  From \<open>top = 1\<close> on the last row of a viewport of 3 rows, one command down and two
  up: \<open>top\<close> ends at 2.
\<close>

theorem scroll_top_monotone_witness:
  "0 < top' \<lparr>top' = 1, bottom' = 3, max_lines' = 1, current_line' = 2,
             current_content' = Some [HTMLMarkupText ''Hi'' False False]\<rparr> \<and>
   top' (scroll_all
      \<lparr>top' = 1, bottom' = 3, max_lines' = 1, current_line' = 2,
       current_content' = Some [HTMLMarkupText ''Hi'' False False]\<rparr>
      [DOWN, UP, UP]) = 2"
  using scroll_top_monotone
    [of "\<lparr>top' = 1, bottom' = 3, max_lines' = 1, current_line' = 2,
          current_content' = Some [HTMLMarkupText ''Hi'' False False]\<rparr>"
        DOWN "[DOWN, UP, UP]" 3]
  by (simp add: scroll'_def draw_def slice_def slice_index_def UP_def DOWN_def Let_def)

end
